theory Spec2Isabelle
  imports Main
begin

section \<open>JavaScript values the router touches\<close>

text \<open>
  What a \<open>throw\<close> or a rejected promise carries. \<open>AssertionError\<close> is what Node's
  \<open>assert\<close> raises (with its message), \<open>TypeError\<close> what the engine raises on a property
  read of \<open>undefined\<close> or on a call of a non-function, \<open>HttpError\<close> what micro's
  \<open>createError(code, message)\<close> builds. \<open>Thrown name message stack\<close> is any other object,
  given by what its three properties print as; \<open>Nullish\<close> is a thrown \<open>null\<close> or
  \<open>undefined\<close>.
\<close>

datatype js_thrown =
    AssertionError string
  | TypeError string
  | HttpError nat string
  | Thrown string string string
  | Nullish

fun name_of :: "js_thrown \<Rightarrow> string" where
  "name_of (AssertionError m) = ''AssertionError''"
| "name_of (TypeError m) = ''TypeError''"
| "name_of (HttpError c m) = ''Error''"
| "name_of (Thrown n m s) = n"
| "name_of Nullish = []"

fun message_of :: "js_thrown \<Rightarrow> string" where
  "message_of (AssertionError m) = m"
| "message_of (TypeError m) = m"
| "message_of (HttpError c m) = m"
| "message_of (Thrown n m s) = m"
| "message_of Nullish = []"

text \<open>
  The stack of an error the engine or a library created starts with its header line; the
  frames that follow depend on the engine and are left out.
\<close>

fun stack_of :: "js_thrown \<Rightarrow> string" where
  "stack_of (Thrown n m s) = s"
| "stack_of e = name_of e @ '': '' @ message_of e"

text \<open>What a call returns: a plain value, or a promise by the way it settles.\<close>

datatype js_result =
    Plain "string option"
  | Resolves "string option"
  | Rejects js_thrown
  | Pending

datatype completion = Throws js_thrown | Returns js_result

text \<open>The state of the promise an \<open>async\<close> function hands back.\<close>

datatype promise = Fulfilled "string option" | Rejected js_thrown | Unsettled

type_synonym params = "(string \<times> string) list"

text \<open>
  A property meant to hold a function, by the kinds of value the code tells apart:
  \<open>undefined\<close> or another falsy value, a function, or a truthy value that is not a
  function.
\<close>

datatype 'f js_slot = Absent | Function 'f | NotFunction

text \<open>
  The result of \<open>new URL\<close>, and the request with the two properties \<open>handle\<close> sets on it.
  The property \<open>method\<close> of a request is the field \<open>req_method\<close>.
\<close>

record js_url =
  pathname :: string
  searchParams :: params

record request =
  url :: string
  req_method :: "string option"
  params :: "params option"
  searchParams :: "params option"

text \<open>The response object, by the calls of micro's \<open>send(res, code, data)\<close> made on it.\<close>

record response =
  sent :: "(nat \<times> string option) list"

text \<open>
  A handler or pre-hook: called with the request and the response, it may change both,
  and it throws or returns.
\<close>

type_synonym callable = "request \<Rightarrow> response \<Rightarrow> (request \<times> response) \<times> completion"

text \<open>
  \<open>options\<close> as \<open>route\<close> receives it; a missing property is \<open>None\<close> or \<open>Absent\<close>. Its
  property \<open>method\<close> is the field \<open>opt_method\<close>.
\<close>

record route_options =
  path :: "string option"
  opt_method :: "string option"
  handler :: "callable js_slot"
  before :: "callable js_slot"

text \<open>The object \<open>{handler, before}\<close> bound to a method, and the Route \<open>{path, methods}\<close>.\<close>

record method_obj =
  handler :: "callable js_slot"
  before :: "callable js_slot"

record route =
  path :: string
  methods :: "string \<rightharpoonup> method_obj"

text \<open>The \<open>options\<close> of the constructor.\<close>

record router_options =
  strict :: bool
  debug :: bool

text \<open>The upper-case form of an ASCII letter; any other character is left as it is.\<close>

definition upper_char :: "char \<Rightarrow> char" where
  "upper_char c =
     (case map_of (zip ''abcdefghijklmnopqrstuvwxyz'' ''ABCDEFGHIJKLMNOPQRSTUVWXYZ'') c of
        Some u \<Rightarrow> u
      | None \<Rightarrow> c)"

text \<open>\<open>String.prototype.toUpperCase\<close> on ASCII text (HTTP method names).\<close>

definition toUpperCase :: "string \<Rightarrow> string" where
  "toUpperCase s = map upper_char s"

section \<open>The path tree\<close>

text \<open>
  Modelled from the spec: the prefix tree behind \<open>radixRouter.insert\<close> and
  \<open>radixRouter.lookup\<close> is the \<open>radix-router\<close> package, which \<open>router.js\<close> only calls.
  The definitions of this section follow the spec's PathTree (sections 3 and 4.1): a node
  owns its static children by literal segment, at most one parameter child with the
  parameter's name, at most one wildcard child, and the Route of the pattern that ends
  there. A Route is an object shared between the tree and \<open>route\<close>, so a node holds its
  address in the router's object store.
\<close>

datatype node =
  Node (route_at: "nat option")
       (static_children: "string \<Rightarrow> node option")
       (param_child: "(string \<times> node) option")
       (wildcard_child: "node option")

text \<open>Modelled from the spec: a node that was just created owns nothing.\<close>

definition empty_node :: node where
  "empty_node = Node None (\<lambda>_. None) None None"

text \<open>
  Modelled from the spec: the tree object, with the \<open>strict\<close> option it was built with
  (section 6).
\<close>

record radix_router =
  strict :: bool
  root :: node

text \<open>Modelled from the spec: the tokens of a string between the delimiters \<open>c\<close>.\<close>

fun split_on :: "char \<Rightarrow> string \<Rightarrow> string list" where
  "split_on c [] = [[]]"
| "split_on c (x # xs) =
     (if x = c then [] # split_on c xs
      else (case split_on c xs of [] \<Rightarrow> [[x]] | w # ws \<Rightarrow> (x # w) # ws))"

text \<open>
  Modelled from the spec: a path or pattern is split on \<open>/\<close>; the empty segment of a
  leading slash is ignored, and that of a trailing slash too unless \<open>strict\<close> is set
  (section 6: with \<open>strict\<close> a trailing slash makes a distinct path).
\<close>

definition segments :: "bool \<Rightarrow> string \<Rightarrow> string list" where
  "segments strct p =
     (let ss = split_on (CHR ''/'') p;
          ss1 = (case ss of [] # rest \<Rightarrow> rest | _ \<Rightarrow> ss)
      in if \<not> strct \<and> ss1 \<noteq> [] \<and> last ss1 = [] then butlast ss1 else ss1)"

text \<open>
  Modelled from the spec: the markers are those of the spec's examples, \<open>:id\<close> for a
  parameter and \<open>*\<close> for the wildcard.
\<close>

datatype segment = Static string | Parameter string | Wildcard

definition segment_kind :: "string \<Rightarrow> segment" where
  "segment_kind s =
     (if s = ''*'' then Wildcard
      else (case s of c # nm \<Rightarrow> (if c = CHR '':'' then Parameter nm else Static s)
                    | [] \<Rightarrow> Static s))"

text \<open>
  Modelled from the spec (4.1, insert): walk from the root, creating the child of each
  segment if absent; a parameter segment reuses the parameter child and records the name;
  the wildcard child ends the walk (no node exists below it); the terminal node gets the
  Route if it has none yet.
\<close>

fun insert_at :: "nat \<Rightarrow> string list \<Rightarrow> node \<Rightarrow> node" where
  "insert_at a [] (Node r st pc wc) =
     Node (case r of None \<Rightarrow> Some a | Some b \<Rightarrow> Some b) st pc wc"
| "insert_at a (s # ss) (Node r st pc wc) =
     (case segment_kind s of
        Static lit \<Rightarrow>
          Node r (st(lit := Some (insert_at a ss (case st lit of None \<Rightarrow> empty_node | Some c \<Rightarrow> c))))
               pc wc
      | Parameter nm \<Rightarrow>
          Node r st
               (Some (nm, insert_at a ss (case pc of None \<Rightarrow> empty_node | Some (_, c) \<Rightarrow> c)))
               wc
      | Wildcard \<Rightarrow>
          Node r st pc
               (Some (insert_at a [] (case wc of None \<Rightarrow> empty_node | Some c \<Rightarrow> c))))"

text \<open>
  Modelled from the spec: the parameters are a mapping in the order of the pattern
  (section 3); a name bound twice keeps its place and takes the later value.
\<close>

fun bind :: "string \<Rightarrow> string \<Rightarrow> params \<Rightarrow> params" where
  "bind k v [] = [(k, v)]"
| "bind k v ((k', v') # ps) = (if k = k' then (k, v) # ps else (k', v') # bind k v ps)"

text \<open>
  Modelled from the spec (4.1, lookup): a greedy walk, at each level the static child of
  the segment first, else the parameter child (which takes any one segment and binds
  it), else the wildcard child (which takes the one or more segments left, section 3);
  a branch that dead-ends gives NotFound, no sibling is retried. The result is the
  Route's address, the bound parameters and the segments a wildcard took.
\<close>

fun lookup_at :: "node \<Rightarrow> string list \<Rightarrow> params \<Rightarrow> (nat \<times> params \<times> string list) option" where
  "lookup_at n [] ps = (case route_at n of None \<Rightarrow> None | Some a \<Rightarrow> Some (a, ps, []))"
| "lookup_at n (s # ss) ps =
     (case static_children n s of
        Some c \<Rightarrow> lookup_at c ss ps
      | None \<Rightarrow>
          (case param_child n of
             Some (nm, c) \<Rightarrow> lookup_at c ss (bind nm s ps)
           | None \<Rightarrow>
               (case wildcard_child n of
                  Some w \<Rightarrow> (case route_at w of None \<Rightarrow> None | Some a \<Rightarrow> Some (a, ps, s # ss))
                | None \<Rightarrow> None)))"

text \<open>
  Modelled from the spec: \<open>lookup(path)\<close> hands back \<open>null\<close> or the Route, with the
  parameters of this match on it as \<open>route.params\<close> when any were bound (\<open>handle\<close> reads
  them under the comment "Set the params if we have any").
\<close>

definition lookup :: "radix_router \<Rightarrow> string \<Rightarrow> (nat \<times> params option) option" where
  "lookup rr p =
     (case lookup_at (root rr) (segments (strict rr) p) [] of
        None \<Rightarrow> None
      | Some (a, ps, rest) \<Rightarrow> Some (a, if ps = [] then None else Some ps))"

text \<open>Modelled from the spec: \<open>insert(route)\<close> files the Route at address \<open>a\<close> under its path.\<close>

definition insert :: "nat \<Rightarrow> string \<Rightarrow> radix_router \<Rightarrow> radix_router" where
  "insert a p rr = rr\<lparr>root := insert_at a (segments (strict rr) p) (root rr)\<rparr>"

section \<open>The router\<close>

text \<open>
  The \<open>Router\<close> object: its tree, its \<open>debug\<close> flag, and the Route objects it has created
  (\<open>objects\<close>, by address; \<open>allocated\<close> counts them). A Route is reached both from the tree
  and from the variable \<open>route\<close> of the method \<open>route\<close>, which mutates it.
\<close>

record router =
  radixRouter :: radix_router
  debug :: bool
  objects :: "nat \<Rightarrow> route"
  allocated :: nat

text \<open>\<open>constructor(options)\<close>: \<open>options && options.strict\<close>, \<open>options && options.debug\<close>.\<close>

definition Router :: "router_options option \<Rightarrow> router" where
  "Router options =
     \<lparr>radixRouter =
        \<lparr>strict = (case options of None \<Rightarrow> False | Some opts \<Rightarrow> router_options.strict opts),
         root = empty_node\<rparr>,
      debug = (case options of None \<Rightarrow> False | Some opts \<Rightarrow> router_options.debug opts),
      objects = (\<lambda>_. \<lparr>path = [], methods = Map.empty\<rparr>),
      allocated = 0\<rparr>"

text \<open>Truthiness of a string-valued property: \<open>undefined\<close> and the empty string are falsy.\<close>

fun truthy :: "string option \<Rightarrow> bool" where
  "truthy None = False"
| "truthy (Some s) = (s \<noteq> [])"

text \<open>\<open>route.methods.set(key, m)\<close> on the Route at address \<open>a\<close>.\<close>

definition methods_set :: "nat \<Rightarrow> string \<Rightarrow> method_obj \<Rightarrow> router \<Rightarrow> router" where
  "methods_set a key m this =
     this\<lparr>objects := (objects this)(a := (objects this a)\<lparr>methods := (methods (objects this a))(key \<mapsto> m)\<rparr>)\<rparr>"

text \<open>
  \<open>route(options)\<close>. The result is the error raised, if any, and the router as the call
  leaves it: the assertions on \<open>options\<close> come before any write, the one on
  \<open>options.before\<close> after \<open>route.methods.set\<close>.
\<close>

definition route :: "route_options option \<Rightarrow> router \<Rightarrow> js_thrown option \<times> router" where
  "route options this =
     (case options of
        None \<Rightarrow> (Some (AssertionError ''You must provide a valid route options object.''), this)
      | Some opts \<Rightarrow>
          if \<not> truthy (route_options.path opts)
            then (Some (AssertionError ''You must provide a valid path.''), this)
          else if \<not> truthy (opt_method opts)
            then (Some (AssertionError ''You must provide a valid route handler function.''), this)
          else if route_options.handler opts = Absent
            then (Some (AssertionError ''You must provide a valid route handler function.''), this)
          else
            let p = (case route_options.path opts of Some s \<Rightarrow> s | None \<Rightarrow> []);
                m = (case opt_method opts of Some s \<Rightarrow> s | None \<Rightarrow> []);
                (a, this1) =
                  (case lookup (radixRouter this) p of
                     Some (a, ps) \<Rightarrow> (a, this)
                   | None \<Rightarrow>
                       (let a = allocated this;
                            made = this\<lparr>objects := (objects this)(a := \<lparr>path = p, methods = Map.empty\<rparr>),
                                        allocated := Suc a\<rparr>
                        in (a, made\<lparr>radixRouter := insert a p (radixRouter made)\<rparr>)));
                meth = \<lparr>method_obj.handler = route_options.handler opts, method_obj.before = Absent\<rparr>;
                this2 = methods_set a (toUpperCase m) meth this1
            in (case route_options.before opts of
                  Absent \<Rightarrow> (None, this2)
                | Function f \<Rightarrow>
                    (None, methods_set a (toUpperCase m) (meth\<lparr>method_obj.before := Function f\<rparr>) this2)
                | NotFunction \<Rightarrow>
                    (Some (AssertionError ''The expression evaluated to a falsy value''), this2)))"

section \<open>Dispatch\<close>

text \<open>
  What one call of \<open>handle\<close> leaves behind: the promise it returned, the request and
  response objects as they are afterwards, the callables it invoked (each with the
  request it was given), and the rejections of promises nobody awaited.
\<close>

datatype callee = Before | Handler

record outcome =
  settled :: promise
  request_after :: request
  response_after :: response
  calls :: "(callee \<times> request) list"
  unhandled :: "js_thrown list"

text \<open>micro's \<open>send(res, code, data)\<close>; \<open>data = null\<close> (\<open>None\<close>) sends an empty body.\<close>

definition send :: "response \<Rightarrow> nat \<Rightarrow> string option \<Rightarrow> response" where
  "send res code data = res\<lparr>sent := sent res @ [(code, data)]\<rparr>"

text \<open>Calling a property as a function: anything but a function raises a TypeError.\<close>

definition call :: "callable js_slot \<Rightarrow> request \<Rightarrow> response \<Rightarrow> (request \<times> response) \<times> completion" where
  "call f req res =
     (case f of
        Function g \<Rightarrow> g req res
      | _ \<Rightarrow> ((req, res), Throws (TypeError ''is not a function'')))"

text \<open>
  The \<open>catch (e)\<close> block. With \<open>debug\<close> the template reads \<open>e.name\<close>, which itself raises
  when \<open>e\<close> is \<open>null\<close> or \<open>undefined\<close>; that error leaves \<open>handle\<close>.
\<close>

definition catch_block :: "router \<Rightarrow> js_thrown \<Rightarrow> outcome \<Rightarrow> outcome" where
  "catch_block this e st =
     (if debug this then
        (case e of
           Nullish \<Rightarrow> st\<lparr>settled := Rejected (TypeError ''Cannot read properties of undefined'')\<rparr>
         | _ \<Rightarrow>
             st\<lparr>settled := Fulfilled None,
                response_after :=
                  send (response_after st) 500
                    (Some (name_of e @ '': '' @ message_of e @ [CHR 0x0A] @ stack_of e))\<rparr>)
      else st\<lparr>settled := Fulfilled None, response_after := send (response_after st) 500 None\<rparr>)"

text \<open>\<open>return await methodObj.handler(req, res)\<close>, inside the \<open>try\<close>.\<close>

definition run_handler :: "router \<Rightarrow> method_obj \<Rightarrow> outcome \<Rightarrow> outcome" where
  "run_handler this methodObj st =
     (case call (handler methodObj) (request_after st) (response_after st) of
        ((req', res'), c) \<Rightarrow>
          (let st' = st\<lparr>request_after := req', response_after := res',
                         calls := calls st @
                           (case handler methodObj of
                              Function g \<Rightarrow> [(Handler, request_after st)]
                            | _ \<Rightarrow> [])\<rparr>
           in case c of
                Throws e \<Rightarrow> catch_block this e st'
              | Returns (Plain v) \<Rightarrow> st'\<lparr>settled := Fulfilled v\<rparr>
              | Returns (Resolves v) \<Rightarrow> st'\<lparr>settled := Fulfilled v\<rparr>
              | Returns (Rejects e) \<Rightarrow> catch_block this e st'
              | Returns Pending \<Rightarrow> st'\<lparr>settled := Unsettled\<rparr>))"

text \<open>
  \<open>if (methodObj.before) methodObj.before(req, res);\<close> and what follows it. The value the
  pre-hook returns is dropped: a promise it returned is not awaited, and its rejection
  is nobody's.
\<close>

definition run_before :: "router \<Rightarrow> method_obj \<Rightarrow> outcome \<Rightarrow> outcome" where
  "run_before this methodObj st =
     (case before methodObj of
        Absent \<Rightarrow> run_handler this methodObj st
      | _ \<Rightarrow>
          (case call (before methodObj) (request_after st) (response_after st) of
             ((req', res'), c) \<Rightarrow>
               (let st' = st\<lparr>request_after := req', response_after := res',
                              calls := calls st @
                                (case before methodObj of
                                   Function g \<Rightarrow> [(Before, request_after st)]
                                 | _ \<Rightarrow> [])\<rparr>
                in case c of
                     Throws e \<Rightarrow> catch_block this e st'
                   | Returns (Rejects e) \<Rightarrow>
                       run_handler this methodObj (st'\<lparr>unhandled := unhandled st' @ [e]\<rparr>)
                   | Returns _ \<Rightarrow> run_handler this methodObj st')))"

text \<open>
  \<open>handle(req, res)\<close>. \<open>new_URL\<close> stands for the platform's \<open>new URL(req.url,
  'http://localhost/')\<close>, \<open>None\<close> where it raises. \<open>route.methods.get\<close> gives \<open>undefined\<close>
  for a method that is not bound, and the read of \<open>methodObj.before\<close> then raises inside
  the \<open>try\<close>.
\<close>

definition handle :: "(string \<Rightarrow> js_url option) \<Rightarrow> router \<Rightarrow> request \<Rightarrow> response \<Rightarrow> outcome" where
  "handle new_URL this req res =
     (let st = \<lparr>settled = Unsettled, request_after = req, response_after = res,
                 calls = [], unhandled = []\<rparr>
      in case new_URL (url req) of
           None \<Rightarrow> st\<lparr>settled := Rejected (TypeError ''Invalid URL'')\<rparr>
         | Some reqURL \<Rightarrow>
             (case (lookup (radixRouter this) (pathname reqURL), req_method req) of
                (Some (a, ps), Some m) \<Rightarrow>
                  (let methodObj = methods (objects this a) m;
                       req1 = (case ps of Some p \<Rightarrow> req\<lparr>params := Some p\<rparr> | None \<Rightarrow> req);
                       req2 = req1\<lparr>searchParams := Some (js_url.searchParams reqURL)\<rparr>;
                       st2 = st\<lparr>request_after := req2\<rparr>
                   in case methodObj of
                        None \<Rightarrow> catch_block this (TypeError ''Cannot read properties of undefined'') st2
                      | Some mo \<Rightarrow> run_before this mo st2)
              | _ \<Rightarrow> st\<lparr>settled := Rejected (HttpError 404 ''Route not found'')\<rparr>))"

text \<open>The verb shorthands and their helper.\<close>

definition routeOptionsHelper ::
  "string option \<Rightarrow> string \<Rightarrow> callable js_slot \<Rightarrow> callable js_slot \<Rightarrow> js_thrown + route_options" where
  "routeOptionsHelper pth meth fn1 fn2 =
     (if fn1 = Absent
        then Inl (AssertionError ''You must provide a valid function as the second parameter.'')
      else if fn2 \<noteq> Absent
        then Inr \<lparr>route_options.path = pth, opt_method = Some meth,
                  route_options.handler = fn2, route_options.before = fn1\<rparr>
      else Inr \<lparr>route_options.path = pth, opt_method = Some meth,
                route_options.handler = fn1, route_options.before = Absent\<rparr>)"

definition verb ::
  "string \<Rightarrow> string option \<Rightarrow> callable js_slot \<Rightarrow> callable js_slot \<Rightarrow> router \<Rightarrow> js_thrown option \<times> router" where
  "verb meth pth fn1 fn2 this =
     (case routeOptionsHelper pth meth fn1 fn2 of
        Inl e \<Rightarrow> (Some e, this)
      | Inr opts \<Rightarrow> route (Some opts) this)"

definition get :: "string option \<Rightarrow> callable js_slot \<Rightarrow> callable js_slot \<Rightarrow> router \<Rightarrow> js_thrown option \<times> router" where
  "get = verb ''GET''"

definition post :: "string option \<Rightarrow> callable js_slot \<Rightarrow> callable js_slot \<Rightarrow> router \<Rightarrow> js_thrown option \<times> router" where
  "post = verb ''POST''"

definition put :: "string option \<Rightarrow> callable js_slot \<Rightarrow> callable js_slot \<Rightarrow> router \<Rightarrow> js_thrown option \<times> router" where
  "put = verb ''PUT''"

definition delete :: "string option \<Rightarrow> callable js_slot \<Rightarrow> callable js_slot \<Rightarrow> router \<Rightarrow> js_thrown option \<times> router" where
  "delete = verb ''DELETE''"

definition options :: "string option \<Rightarrow> callable js_slot \<Rightarrow> callable js_slot \<Rightarrow> router \<Rightarrow> js_thrown option \<times> router" where
  "options = verb ''OPTIONS''"

definition trace :: "string option \<Rightarrow> callable js_slot \<Rightarrow> callable js_slot \<Rightarrow> router \<Rightarrow> js_thrown option \<times> router" where
  "trace = verb ''TRACE''"

definition patch :: "string option \<Rightarrow> callable js_slot \<Rightarrow> callable js_slot \<Rightarrow> router \<Rightarrow> js_thrown option \<times> router" where
  "patch = verb ''PATCH''"

section \<open>Example inputs\<close>

text \<open>
  A stand-in for \<open>new URL\<close> on request targets that are a bare path: the path is the
  pathname and there are no query parameters.
\<close>

definition plain_URL :: "string \<Rightarrow> js_url option" where
  "plain_URL u = Some \<lparr>pathname = u, js_url.searchParams = []\<rparr>"

text \<open>A handler that returns \<open>s\<close>, and an \<open>async\<close> function whose promise rejects with \<open>e\<close>.\<close>

definition replies :: "string \<Rightarrow> callable" where
  "replies s = (\<lambda>req res. ((req, res), Returns (Plain (Some s))))"

definition rejects_later :: "js_thrown \<Rightarrow> callable" where
  "rejects_later e = (\<lambda>req res. ((req, res), Returns (Rejects e)))"

definition throws :: "js_thrown \<Rightarrow> callable" where
  "throws e = (\<lambda>req res. ((req, res), Throws e))"

definition request_of :: "string \<Rightarrow> string \<Rightarrow> request" where
  "request_of m u =
     \<lparr>url = u, req_method = Some m, params = None, request.searchParams = None\<rparr>"

definition no_response :: response where
  "no_response = \<lparr>sent = []\<rparr>"

text \<open>\<open>new Router().get('/users/:id', handler)\<close>.\<close>

definition users_router :: router where
  "users_router =
     snd (get (Some ''/users/:id'') (Function (replies ''user'')) Absent (Router None))"

text \<open>\<open>new Router({debug}).get('/users/:id', async () => { throw denied }, handler)\<close>.\<close>

definition denied :: js_thrown where
  "denied = Thrown ''Error'' ''denied'' ''Error: denied at before''"

definition guarded_router :: "bool \<Rightarrow> router" where
  "guarded_router dbg =
     snd (get (Some ''/users/:id'') (Function (rejects_later denied)) (Function (replies ''user''))
            (Router (Some \<lparr>router_options.strict = False, router_options.debug = dbg\<rparr>)))"

text \<open>\<open>new Router().get('/a/:id', parameter).get('/a/five', static)\<close>.\<close>

definition overlap_router :: router where
  "overlap_router =
     snd (get (Some ''/a/five'') (Function (replies ''static'')) Absent
       (snd (get (Some ''/a/:id'') (Function (replies ''parameter'')) Absent (Router None))))"

text \<open>A registration whose pre-hook is a truthy value that is not a function.\<close>

definition bad_hook_options :: route_options where
  "bad_hook_options =
     \<lparr>route_options.path = Some ''/x'', opt_method = Some ''get'',
      route_options.handler = Function (replies ''x''), route_options.before = NotFunction\<rparr>"

text \<open>\<open>new Router({debug: true}).get('/x', () => { throw null })\<close>.\<close>

definition null_thrower_router :: router where
  "null_thrower_router =
     snd (get (Some ''/x'') (Function (throws Nullish)) Absent
            (Router (Some \<lparr>router_options.strict = False, router_options.debug = True\<rparr>)))"

text \<open>A second registration of \<open>/users/:id\<close>, for \<open>GET\<close> again.\<close>

definition again_options :: route_options where
  "again_options = \<lparr>route_options.path = Some ''/users/:id'', opt_method = Some ''get'',
      route_options.handler = Function (replies ''again''), route_options.before = Absent\<rparr>"

text \<open>A handler that answers with the \<open>id\<close> it finds in \<open>req.params\<close>.\<close>

definition answers_id :: callable where
  "answers_id =
     (\<lambda>req res. ((req, res),
        Returns (Plain (case params req of None \<Rightarrow> None | Some ps \<Rightarrow> map_of ps ''id''))))"

text \<open>A pre-hook that adds \<open>checked\<close> to \<open>req.params\<close> and returns.\<close>

definition marks :: callable where
  "marks =
     (\<lambda>req res.
        ((req\<lparr>params := Some (bind ''checked'' ''yes''
                                (case params req of None \<Rightarrow> [] | Some ps \<Rightarrow> ps))\<rparr>, res),
         Returns (Plain None)))"

text \<open>
  \<open>new Router().get('/users/:id', answersId)\<close>, and the same with the pre-hook:
  \<open>new Router().get('/users/:id', marks, answersId)\<close>.
\<close>

definition echo_router :: router where
  "echo_router = snd (get (Some ''/users/:id'') (Function answers_id) Absent (Router None))"

definition hooked_router :: router where
  "hooked_router =
     snd (get (Some ''/users/:id'') (Function marks) (Function answers_id) (Router None))"

text \<open>
  \<open>new Router().get('/a/:id/x', nested)\<close>, then \<open>.get('/a/*', first)\<close>, then
  \<open>.get('/a/*', second)\<close>.
\<close>

definition nested_router :: router where
  "nested_router =
     snd (get (Some ''/a/:id/x'') (Function (replies ''nested'')) Absent (Router None))"

definition wild_once :: router where
  "wild_once = snd (get (Some ''/a/*'') (Function (replies ''first'')) Absent nested_router)"

definition wild_twice :: router where
  "wild_twice = snd (get (Some ''/a/*'') (Function (replies ''second'')) Absent wild_once)"

text \<open>
  Registrations of \<open>/users/:id\<close> for \<open>POST\<close> and for \<open>GET\<close>, and the routers after
  \<open>users_router.route(post_options)\<close> and then \<open>.route(again_options)\<close>.
\<close>

definition post_options :: route_options where
  "post_options = \<lparr>route_options.path = Some ''/users/:id'', opt_method = Some ''post'',
      route_options.handler = Function (replies ''created''), route_options.before = Absent\<rparr>"

definition get_options :: route_options where
  "get_options = \<lparr>route_options.path = Some ''/users/:id'', opt_method = Some ''GET'',
      route_options.handler = Function (replies ''user''), route_options.before = Absent\<rparr>"

definition both_router :: router where
  "both_router = snd (route (Some post_options) users_router)"

definition again_router :: router where
  "again_router = snd (route (Some again_options) both_router)"


text \<open>
  What every tree built by \<open>insert_at\<close> satisfies: a parameter or wildcard segment is
  never filed among the static children.
\<close>

inductive tidy :: "node \<Rightarrow> bool" where
  "\<lbrakk>\<forall>k c. st k = Some c \<longrightarrow> segment_kind k = Static k \<and> tidy c;
    \<forall>nm c. pc = Some (nm, c) \<longrightarrow> tidy c;
    \<forall>c. wc = Some c \<longrightarrow> tidy c\<rbrakk> \<Longrightarrow> tidy (Node r st pc wc)"

lemmas eval_defs =
  get_def verb_def routeOptionsHelper_def route_def Router_def lookup_def insert_def
  segments_def segment_kind_def empty_node_def methods_set_def toUpperCase_def upper_char_def Let_def
  handle_def run_before_def run_handler_def call_def catch_block_def send_def
  plain_URL_def replies_def rejects_later_def throws_def request_of_def no_response_def
  users_router_def denied_def guarded_router_def overlap_router_def bad_hook_options_def
  again_options_def null_thrower_router_def answers_id_def marks_def echo_router_def
  hooked_router_def nested_router_def wild_once_def wild_twice_def post_options_def
  get_options_def both_router_def again_router_def

section \<open>Dispatch: what \<open>handle\<close> does with a request\<close>

lemma handle_found:
  assumes "new_URL (url req) = Some reqURL"
      and "lookup (radixRouter this) (pathname reqURL) = Some (a, ps)"
      and "req_method req = Some m"
  shows "handle new_URL this req res =
           (case methods (objects this a) m of
              None \<Rightarrow> catch_block this (TypeError ''Cannot read properties of undefined'')
                 \<lparr>settled = Unsettled,
                  request_after = (case ps of Some p \<Rightarrow> req\<lparr>params := Some p\<rparr> | None \<Rightarrow> req)
                     \<lparr>request.searchParams := Some (js_url.searchParams reqURL)\<rparr>,
                  response_after = res, calls = [], unhandled = []\<rparr>
            | Some mo \<Rightarrow> run_before this mo
                 \<lparr>settled = Unsettled,
                  request_after = (case ps of Some p \<Rightarrow> req\<lparr>params := Some p\<rparr> | None \<Rightarrow> req)
                     \<lparr>request.searchParams := Some (js_url.searchParams reqURL)\<rparr>,
                  response_after = res, calls = [], unhandled = []\<rparr>)"
  using assms by (simp add: handle_def Let_def split: option.splits)

lemma calls_catch_block [simp]: "calls (catch_block this e st) = calls st"
  by (simp add: catch_block_def split: js_thrown.splits)

lemma calls_run_handler:
  "handler mo = Function h \<Longrightarrow>
     calls (run_handler this mo st) = calls st @ [(Handler, request_after st)]"
  by (simp add: run_handler_def call_def Let_def
        split: prod.splits completion.splits js_result.splits)

lemma run_before_Absent:
  "before mo = Absent \<Longrightarrow> run_before this mo st = run_handler this mo st"
  by (simp add: run_before_def)

lemma take_calls_run_handler:
  "length (calls st) = n \<Longrightarrow> take n (calls (run_handler this mo st)) = calls st"
  by (simp add: run_handler_def call_def Let_def
        split: prod.splits completion.splits js_result.splits js_slot.splits)

lemma take_calls_run_before:
  assumes "before mo = Function b"
  shows "take (Suc (length (calls st))) (calls (run_before this mo st)) =
           calls st @ [(Before, request_after st)]"
  using assms
  by (simp add: run_before_def call_def Let_def take_calls_run_handler
        split: prod.splits completion.splits js_result.splits)

lemma calls_run_before_returns:
  assumes "before mo = Function b" and "handler mo = Function h"
      and "b (request_after st) (response_after st) = ((rq, rs), Returns v)"
  shows "calls (run_before this mo st) =
           calls st @ [(Before, request_after st), (Handler, rq)]"
  using assms
  by (cases v) (simp_all add: run_before_def call_def Let_def calls_run_handler)

lemma run_handler_returns:
  assumes "handler mo = Function h"
      and "h (request_after st) (response_after st) = ((rq, rs), c)"
      and "c = Returns (Plain x) \<or> c = Returns (Resolves x)"
  shows "run_handler this mo st =
           st\<lparr>settled := Fulfilled x, request_after := rq, response_after := rs,
              calls := calls st @ [(Handler, request_after st)]\<rparr>"
  using assms by (auto simp: run_handler_def call_def Let_def)

lemma run_before_returns:
  assumes "before mo = Function b"
      and "b (request_after st) (response_after st) = ((rq, rs), Returns v)"
  shows "run_before this mo st =
           run_handler this mo
             (st\<lparr>request_after := rq, response_after := rs,
                 calls := calls st @ [(Before, request_after st)],
                 unhandled := unhandled st @ (case v of Rejects e \<Rightarrow> [e] | _ \<Rightarrow> [])\<rparr>)"
  using assms by (cases v) (simp_all add: run_before_def call_def Let_def)

subsection \<open>No route for the path\<close>

text \<open>
  C5, as the spec states it: for every request whose path matches no registered route,
  \<open>handle\<close> produces a 404 fault with message \<open>Route not found\<close>, and this error is
  converted into a response rather than propagated out of the dispatcher. The second half
  does not hold: on a router without routes, \<open>GET /nowhere\<close> makes \<open>handle\<close> reject with
  the 404 error and send nothing.
\<close>

theorem not_found_is_thrown_not_sent:
  "settled (handle plain_URL (Router None) (request_of ''GET'' ''/nowhere'') no_response) =
     Rejected (HttpError 404 ''Route not found'') \<and>
   sent (response_after
          (handle plain_URL (Router None) (request_of ''GET'' ''/nowhere'') no_response)) = []"
  by (simp add: eval_defs)

text \<open>
  C5, amended: for every request whose path matches no registered route, \<open>handle\<close> throws
  the error \<open>createError(404, 'Route not found')\<close> to its caller (its promise rejects with
  it); it calls no handler or pre-hook, sends nothing and leaves the request as it was.
\<close>

theorem handle_throws_404_without_route:
  assumes "new_URL (url req) = Some reqURL"
      and "lookup (radixRouter this) (pathname reqURL) = None"
  shows "handle new_URL this req res =
           \<lparr>settled = Rejected (HttpError 404 ''Route not found''), request_after = req,
            response_after = res, calls = [], unhandled = []\<rparr>"
  using assms by (simp add: handle_def)

theorem handle_throws_404_without_route_witness:
  "plain_URL (url (request_of ''GET'' ''/posts/1'')) =
     Some \<lparr>pathname = ''/posts/1'', js_url.searchParams = []\<rparr> \<and>
   lookup (radixRouter users_router) ''/posts/1'' = None \<and>
   handle plain_URL users_router (request_of ''GET'' ''/posts/1'') no_response =
     \<lparr>settled = Rejected (HttpError 404 ''Route not found''),
      request_after = request_of ''GET'' ''/posts/1'',
      response_after = no_response, calls = [], unhandled = []\<rparr>"
proof -
  have u: "plain_URL (url (request_of ''GET'' ''/posts/1'')) =
             Some \<lparr>pathname = ''/posts/1'', js_url.searchParams = []\<rparr>"
    by (simp add: plain_URL_def request_of_def)
  have l: "lookup (radixRouter users_router)
             (pathname \<lparr>pathname = ''/posts/1'', js_url.searchParams = []\<rparr>) = None"
    by (simp add: eval_defs)
  from handle_throws_404_without_route
         [where new_URL = plain_URL and req = "request_of ''GET'' ''/posts/1''"
            and this = users_router and res = no_response, OF u l] u l
  show ?thesis by simp
qed

subsection \<open>A request without a method\<close>

text \<open>
  C10: for every request whose \<open>method\<close> is \<open>undefined\<close>, \<open>handle\<close> raises the 404
  \<open>Route not found\<close> fault even when the path matches a registered route; a found route
  is dispatched only when the path matches and the method is defined. (The request is one
  whose URL the platform parses.)
\<close>

theorem handle_needs_path_and_method:
  assumes "new_URL (url req) = Some reqURL"
  shows "(req_method req = None \<longrightarrow>
            handle new_URL this req res =
              \<lparr>settled = Rejected (HttpError 404 ''Route not found''), request_after = req,
               response_after = res, calls = [], unhandled = []\<rparr>) \<and>
         (handle new_URL this req res \<noteq>
              \<lparr>settled = Rejected (HttpError 404 ''Route not found''), request_after = req,
               response_after = res, calls = [], unhandled = []\<rparr> \<longrightarrow>
            lookup (radixRouter this) (pathname reqURL) \<noteq> None \<and> req_method req \<noteq> None)"
  using assms by (simp add: handle_def Let_def split: option.splits prod.splits)

theorem handle_needs_path_and_method_witness:
  "lookup (radixRouter users_router) ''/users/42'' = Some (0, Some [(''id'', ''42'')]) \<and>
   handle plain_URL users_router
     \<lparr>url = ''/users/42'', req_method = None, params = None, request.searchParams = None\<rparr>
     no_response =
     \<lparr>settled = Rejected (HttpError 404 ''Route not found''),
      request_after =
        \<lparr>url = ''/users/42'', req_method = None, params = None, request.searchParams = None\<rparr>,
      response_after = no_response, calls = [], unhandled = []\<rparr> \<and>
   handle plain_URL users_router (request_of ''GET'' ''/users/42'') no_response \<noteq>
     \<lparr>settled = Rejected (HttpError 404 ''Route not found''),
      request_after = request_of ''GET'' ''/users/42'',
      response_after = no_response, calls = [], unhandled = []\<rparr> \<and>
   lookup (radixRouter users_router) ''/users/42'' \<noteq> None \<and>
   req_method (request_of ''GET'' ''/users/42'') \<noteq> None"
proof -
  let ?u = "\<lparr>pathname = ''/users/42'', js_url.searchParams = []\<rparr>"
  let ?anon = "\<lparr>url = ''/users/42'', req_method = None, params = None,
                 request.searchParams = None\<rparr>"
  have l: "lookup (radixRouter users_router) ''/users/42'' = Some (0, Some [(''id'', ''42'')])"
    by (simp add: eval_defs)
  have u: "plain_URL (url ?anon) = Some ?u"
    by (simp add: plain_URL_def)
  have v: "plain_URL (url (request_of ''GET'' ''/users/42'')) = Some ?u"
    by (simp add: plain_URL_def request_of_def)
  have d: "settled (handle plain_URL users_router (request_of ''GET'' ''/users/42'') no_response) =
             Fulfilled (Some ''user'')"
    by (simp add: eval_defs)
  have n: "handle plain_URL users_router (request_of ''GET'' ''/users/42'') no_response \<noteq>
             \<lparr>settled = Rejected (HttpError 404 ''Route not found''),
              request_after = request_of ''GET'' ''/users/42'',
              response_after = no_response, calls = [], unhandled = []\<rparr>"
  proof
    assume "handle plain_URL users_router (request_of ''GET'' ''/users/42'') no_response =
             \<lparr>settled = Rejected (HttpError 404 ''Route not found''),
              request_after = request_of ''GET'' ''/users/42'',
              response_after = no_response, calls = [], unhandled = []\<rparr>"
    with d show False by simp
  qed
  from handle_needs_path_and_method
         [where new_URL = plain_URL and this = users_router and res = no_response
            and req = ?anon, OF u]
  have a: "handle plain_URL users_router ?anon no_response =
             \<lparr>settled = Rejected (HttpError 404 ''Route not found''), request_after = ?anon,
              response_after = no_response, calls = [], unhandled = []\<rparr>"
    by simp
  from handle_needs_path_and_method
         [where new_URL = plain_URL and this = users_router and res = no_response
            and req = "request_of ''GET'' ''/users/42''", OF v] n
  have b: "lookup (radixRouter users_router) ''/users/42'' \<noteq> None \<and>
           req_method (request_of ''GET'' ''/users/42'') \<noteq> None"
    by simp
  from l a n b show ?thesis by simp
qed

section \<open>Registration: what \<open>route\<close> does to the table\<close>

lemma tidy_Node:
  "tidy (Node r st pc wc) \<longleftrightarrow>
     (\<forall>k c. st k = Some c \<longrightarrow> segment_kind k = Static k \<and> tidy c) \<and>
     (\<forall>nm c. pc = Some (nm, c) \<longrightarrow> tidy c) \<and> (\<forall>c. wc = Some c \<longrightarrow> tidy c)"
  by (auto intro: tidy.intros elim: tidy.cases)

lemma tidy_empty_node [simp]: "tidy empty_node"
  by (simp add: empty_node_def tidy_Node)

lemma segment_kind_Static: "segment_kind s = Static lit \<Longrightarrow> lit = s"
  by (auto simp: segment_kind_def split: if_splits list.splits)

lemma segment_kind_Wildcard: "segment_kind s = Wildcard \<Longrightarrow> s = ''*''"
  by (auto simp: segment_kind_def split: if_splits list.splits)


text \<open>
  On such a tree a pattern of static and parameter segments, once inserted, is found by
  a lookup of its own text: the walk of \<open>lookup_at\<close> takes the branches \<open>insert_at\<close> took.
\<close>

lemma lookup_at_insert_at:
  "tidy n \<Longrightarrow> ''*'' \<notin> set ss \<Longrightarrow>
     \<exists>b qs. lookup_at (insert_at a ss n) ss ps = Some (b, qs, [])"
proof (induction a ss n arbitrary: ps rule: insert_at.induct)
  case (1 a r st pc wc)
  then show ?case by (simp split: option.splits)
next
  case (2 a s ss r st pc wc)
  from "2.prems" have ns: "s \<noteq> ''*''" and nss: "''*'' \<notin> set ss" by auto
  show ?case
  proof (cases "segment_kind s")
    case (Static lit)
    then have k: "segment_kind s = Static s" using segment_kind_Static by blast
    have t: "tidy (case st s of None \<Rightarrow> empty_node | Some c \<Rightarrow> c)"
      using "2.prems" by (auto simp: tidy_Node split: option.splits)
    from "2.IH"(1)[OF k t nss] k show ?thesis by simp
  next
    case (Parameter nm)
    have t: "tidy (case pc of None \<Rightarrow> empty_node | Some (_, c) \<Rightarrow> c)"
      using "2.prems" by (auto simp: tidy_Node split: option.splits)
    have "st s = None"
    proof (cases "st s")
      case (Some c)
      with "2.prems"(1) have "segment_kind s = Static s" by (auto simp: tidy_Node)
      with Parameter show ?thesis by simp
    qed simp
    with "2.IH"(2)[OF Parameter t nss] Parameter show ?thesis by simp
  next
    case Wildcard
    with ns segment_kind_Wildcard show ?thesis by blast
  qed
qed

lemma radixRouter_methods_set [simp]: "radixRouter (methods_set a k m this) = radixRouter this"
  by (simp add: methods_set_def)

lemma allocated_methods_set [simp]: "allocated (methods_set a k m this) = allocated this"
  by (simp add: methods_set_def)



lemma lookup_insert:
  assumes "tidy (root rr)" and "''*'' \<notin> set (segments (strict rr) p)"
  shows "\<exists>b qs. lookup (insert a p rr) p = Some (b, qs)"
proof -
  from lookup_at_insert_at[OF assms, of a "[]"] obtain b qs where
    "lookup_at (insert_at a (segments (strict rr) p) (root rr)) (segments (strict rr) p) [] = Some (b, qs, [])"
    by blast
  then show ?thesis by (simp add: lookup_def insert_def)
qed

lemma route_then_resolves:
  assumes "tidy (root (radixRouter this))"
      and "route_options.path opts = Some p" and "p \<noteq> []"
      and "truthy (opt_method opts)"
      and "route_options.handler opts \<noteq> Absent"
      and "''*'' \<notin> set (segments (strict (radixRouter this)) p)"
  shows "\<exists>a ps. lookup (radixRouter (snd (route (Some opts) this))) p = Some (a, ps)"
proof (cases "lookup (radixRouter this) p")
  case None
  from lookup_insert[OF assms(1) assms(6), of "allocated this"] obtain b qs where
    "lookup (insert (allocated this) p (radixRouter this)) p = Some (b, qs)" by blast
  with None assms(2-5) show ?thesis
    by (simp add: route_def Let_def split: js_slot.splits)
next
  case (Some r)
  with assms(2-5) show ?thesis
    by (cases r) (simp add: route_def Let_def split: js_slot.splits)
qed


lemma lookup_at_empty_node [simp]: "lookup_at empty_node ss ps = None"
  by (cases ss) (simp_all add: empty_node_def)







lemma toUpperCase_examples:
  "toUpperCase ''get'' = ''GET'' \<and> toUpperCase ''Post'' = ''POST'' \<and>
   toUpperCase ''DELETE'' = ''DELETE'' \<and> toUpperCase ''m-search'' = ''M-SEARCH''"
  by (simp add: toUpperCase_def upper_char_def)

subsection \<open>Missing fields\<close>

text \<open>
  C8: every registration call with a missing or empty pattern, a missing or empty method,
  or a missing handler fails fast with an assertion error raised to the caller, before
  anything is written to the table. So do \<open>route()\<close> without options and a verb shorthand
  without its function or without its path.
\<close>

theorem route_fails_fast_on_missing_fields:
  "(\<not> truthy (route_options.path opts) \<longrightarrow>
      route (Some opts) this = (Some (AssertionError ''You must provide a valid path.''), this)) \<and>
   (truthy (route_options.path opts) \<and>
    (\<not> truthy (opt_method opts) \<or> route_options.handler opts = Absent) \<longrightarrow>
      route (Some opts) this =
        (Some (AssertionError ''You must provide a valid route handler function.''), this)) \<and>
   route None this =
     (Some (AssertionError ''You must provide a valid route options object.''), this) \<and>
   verb meth pth Absent g this =
     (Some (AssertionError ''You must provide a valid function as the second parameter.''), this) \<and>
   (f \<noteq> Absent \<and> \<not> truthy pth \<longrightarrow>
      verb meth pth f g this = (Some (AssertionError ''You must provide a valid path.''), this))"
  by (auto simp: route_def verb_def routeOptionsHelper_def)

theorem route_fails_fast_on_missing_fields_witness:
  "\<not> truthy (Some '''') \<and>
   route (Some \<lparr>route_options.path = Some '''', opt_method = Some ''GET'',
                 route_options.handler = Function (replies ''x''),
                 route_options.before = Absent\<rparr>) users_router =
     (Some (AssertionError ''You must provide a valid path.''), users_router) \<and>
   route (Some \<lparr>route_options.path = Some ''/x'', opt_method = None,
                 route_options.handler = Function (replies ''x''),
                 route_options.before = Absent\<rparr>) users_router =
     (Some (AssertionError ''You must provide a valid route handler function.''), users_router) \<and>
   route (Some \<lparr>route_options.path = Some ''/x'', opt_method = Some ''GET'',
                 route_options.handler = Absent,
                 route_options.before = Absent\<rparr>) users_router =
     (Some (AssertionError ''You must provide a valid route handler function.''), users_router) \<and>
   get None (Function (replies ''x'')) Absent users_router =
     (Some (AssertionError ''You must provide a valid path.''), users_router)"
proof -
  have a: "route (Some \<lparr>route_options.path = Some '''', opt_method = Some ''GET'',
                 route_options.handler = Function (replies ''x''),
                 route_options.before = Absent\<rparr>) users_router =
     (Some (AssertionError ''You must provide a valid path.''), users_router)"
    using route_fails_fast_on_missing_fields
      [of "\<lparr>route_options.path = Some '''', opt_method = Some ''GET'',
                 route_options.handler = Function (replies ''x''),
                 route_options.before = Absent\<rparr>" users_router]
    by simp
  have b: "route (Some \<lparr>route_options.path = Some ''/x'', opt_method = None,
                 route_options.handler = Function (replies ''x''),
                 route_options.before = Absent\<rparr>) users_router =
     (Some (AssertionError ''You must provide a valid route handler function.''), users_router)"
    using route_fails_fast_on_missing_fields
      [of "\<lparr>route_options.path = Some ''/x'', opt_method = None,
                 route_options.handler = Function (replies ''x''),
                 route_options.before = Absent\<rparr>" users_router]
    by simp
  have c: "route (Some \<lparr>route_options.path = Some ''/x'', opt_method = Some ''GET'',
                 route_options.handler = Absent,
                 route_options.before = Absent\<rparr>) users_router =
     (Some (AssertionError ''You must provide a valid route handler function.''), users_router)"
    using route_fails_fast_on_missing_fields
      [of "\<lparr>route_options.path = Some ''/x'', opt_method = Some ''GET'',
                 route_options.handler = Absent,
                 route_options.before = Absent\<rparr>" users_router]
    by simp
  have d: "get None (Function (replies ''x'')) Absent users_router =
     (Some (AssertionError ''You must provide a valid path.''), users_router)"
    using route_fails_fast_on_missing_fields
      [where f = "Function (replies ''x'')" and pth = None and meth = "''GET''"
         and g = Absent and this = users_router]
    by (simp add: get_def)
  from a b c d show ?thesis by simp
qed

subsection \<open>Registering a pattern again\<close>




section \<open>Dispatch of a matched route\<close>

subsection \<open>The request the callables see\<close>

text \<open>
  C9: for every matched route whose lookup bound path parameters, \<open>handle\<close> puts them on
  the request as \<open>params\<close>, and the parsed query parameters as \<open>searchParams\<close>, before it
  invokes anything. Without a pre-hook the handler is the only call, receives that
  request, and \<open>handle\<close> resolves to the value the handler returns, with the request and
  response as the handler left them. With a pre-hook, the pre-hook is the first call and
  receives that request; when it returns, the handler is called next with the request
  and response as the pre-hook left them, and \<open>handle\<close> resolves to the handler's value.
  The witness is \<open>GET /users/42\<close> against \<open>/users/:id\<close>, without and with a pre-hook:
  \<open>params\<close> binds \<open>id\<close> to \<open>42\<close> and the registered handler answers with it.
\<close>

theorem handle_populates_request:
  assumes "new_URL (url req) = Some reqURL"
      and "lookup (radixRouter this) (pathname reqURL) = Some (a, Some ps)"
      and "req_method req = Some m"
      and "methods (objects this a) m = Some mo"
      and "handler mo = Function h"
  shows "(before mo = Absent \<longrightarrow>
            calls (handle new_URL this req res) =
              [(Handler, req\<lparr>params := Some ps,
                             request.searchParams := Some (js_url.searchParams reqURL)\<rparr>)] \<and>
            (\<forall>rq rs v.
               h (req\<lparr>params := Some ps,
                      request.searchParams := Some (js_url.searchParams reqURL)\<rparr>) res =
                 ((rq, rs), Returns (Plain v)) \<or>
               h (req\<lparr>params := Some ps,
                      request.searchParams := Some (js_url.searchParams reqURL)\<rparr>) res =
                 ((rq, rs), Returns (Resolves v)) \<longrightarrow>
               handle new_URL this req res =
                 \<lparr>settled = Fulfilled v, request_after = rq, response_after = rs,
                  calls = [(Handler, req\<lparr>params := Some ps,
                             request.searchParams := Some (js_url.searchParams reqURL)\<rparr>)],
                  unhandled = []\<rparr>)) \<and>
         (\<forall>b. before mo = Function b \<longrightarrow>
            take 1 (calls (handle new_URL this req res)) =
              [(Before, req\<lparr>params := Some ps,
                            request.searchParams := Some (js_url.searchParams reqURL)\<rparr>)] \<and>
            (\<forall>rq rs v.
               b (req\<lparr>params := Some ps,
                      request.searchParams := Some (js_url.searchParams reqURL)\<rparr>) res =
                 ((rq, rs), Returns v) \<longrightarrow>
               calls (handle new_URL this req res) =
                 [(Before, req\<lparr>params := Some ps,
                             request.searchParams := Some (js_url.searchParams reqURL)\<rparr>),
                  (Handler, rq)] \<and>
               (\<forall>rq2 rs2 x.
                  h rq rs = ((rq2, rs2), Returns (Plain x)) \<or>
                  h rq rs = ((rq2, rs2), Returns (Resolves x)) \<longrightarrow>
                  handle new_URL this req res =
                    \<lparr>settled = Fulfilled x, request_after = rq2, response_after = rs2,
                     calls = [(Before, req\<lparr>params := Some ps,
                                 request.searchParams := Some (js_url.searchParams reqURL)\<rparr>),
                              (Handler, rq)],
                     unhandled = (case v of Rejects e \<Rightarrow> [e] | _ \<Rightarrow> [])\<rparr>)))"
proof -
  let ?req = "req\<lparr>params := Some ps, request.searchParams := Some (js_url.searchParams reqURL)\<rparr>"
  let ?st = "\<lparr>settled = Unsettled, request_after = ?req, response_after = res,
              calls = [], unhandled = []\<rparr>"
  have run: "handle new_URL this req res = run_before this mo ?st"
    using assms(1-4) by (simp add: handle_found)
  have plain: "calls (handle new_URL this req res) = [(Handler, ?req)]"
    if "before mo = Absent"
    using that assms(5) by (simp add: run run_before_Absent calls_run_handler)
  have answer: "handle new_URL this req res =
                 \<lparr>settled = Fulfilled v, request_after = rq, response_after = rs,
                  calls = [(Handler, ?req)], unhandled = []\<rparr>"
    if "before mo = Absent"
      and "h ?req res = ((rq, rs), Returns (Plain v)) \<or>
           h ?req res = ((rq, rs), Returns (Resolves v))" for rq rs v
    using that assms(5) by (auto simp: run run_before_Absent run_handler_def call_def)
  have first: "take 1 (calls (handle new_URL this req res)) = [(Before, ?req)]"
    if "before mo = Function b" for b
    using take_calls_run_before [OF that, of ?st this] by (simp add: run)
  have both: "calls (handle new_URL this req res) = [(Before, ?req), (Handler, rq)]"
    if "before mo = Function b" and "b ?req res = ((rq, rs), Returns v)" for b rq rs v
    using calls_run_before_returns [OF that(1) assms(5), of ?st rq rs v this] that(2)
    by (simp add: run)
  have hooked: "handle new_URL this req res =
                    \<lparr>settled = Fulfilled x, request_after = rq2, response_after = rs2,
                     calls = [(Before, ?req), (Handler, rq)],
                     unhandled = (case v of Rejects e \<Rightarrow> [e] | _ \<Rightarrow> [])\<rparr>"
    if "before mo = Function b" and "b ?req res = ((rq, rs), Returns v)"
      and "h rq rs = ((rq2, rs2), Returns (Plain x)) \<or>
           h rq rs = ((rq2, rs2), Returns (Resolves x))" for b rq rs v rq2 rs2 x
  proof -
    let ?st1 = "?st\<lparr>request_after := rq, response_after := rs,
                 calls := calls ?st @ [(Before, request_after ?st)],
                 unhandled := unhandled ?st @ (case v of Rejects e \<Rightarrow> [e] | _ \<Rightarrow> [])\<rparr>"
    have "run_before this mo ?st = run_handler this mo ?st1"
      using run_before_returns [of mo b ?st rq rs v this] that(1,2) by simp
    moreover from that(3) obtain c where c: "h rq rs = ((rq2, rs2), c)"
      and k: "c = Returns (Plain x) \<or> c = Returns (Resolves x)" by blast
    have "run_handler this mo ?st1 =
            ?st1\<lparr>settled := Fulfilled x, request_after := rq2, response_after := rs2,
              calls := calls ?st1 @ [(Handler, request_after ?st1)]\<rparr>"
      using run_handler_returns [of mo h ?st1 rq2 rs2 c x this] assms(5) c k by simp
    ultimately show ?thesis by (simp add: run)
  qed
  from plain answer first both hooked show ?thesis by blast
qed

theorem handle_populates_request_witness:
  "lookup (radixRouter echo_router) ''/users/42'' = Some (0, Some [(''id'', ''42'')]) \<and>
   handle plain_URL echo_router (request_of ''GET'' ''/users/42'') no_response =
     \<lparr>settled = Fulfilled (Some ''42''),
      request_after = \<lparr>url = ''/users/42'', req_method = Some ''GET'',
                        params = Some [(''id'', ''42'')], request.searchParams = Some []\<rparr>,
      response_after = no_response,
      calls = [(Handler, \<lparr>url = ''/users/42'', req_method = Some ''GET'',
                           params = Some [(''id'', ''42'')], request.searchParams = Some []\<rparr>)],
      unhandled = []\<rparr> \<and>
   handle plain_URL hooked_router (request_of ''GET'' ''/users/42'') no_response =
     \<lparr>settled = Fulfilled (Some ''42''),
      request_after = \<lparr>url = ''/users/42'', req_method = Some ''GET'',
                        params = Some [(''id'', ''42''), (''checked'', ''yes'')],
                        request.searchParams = Some []\<rparr>,
      response_after = no_response,
      calls = [(Before, \<lparr>url = ''/users/42'', req_method = Some ''GET'',
                          params = Some [(''id'', ''42'')], request.searchParams = Some []\<rparr>),
               (Handler, \<lparr>url = ''/users/42'', req_method = Some ''GET'',
                           params = Some [(''id'', ''42''), (''checked'', ''yes'')],
                           request.searchParams = Some []\<rparr>)],
      unhandled = []\<rparr>"
proof -
  let ?req = "request_of ''GET'' ''/users/42''"
  let ?u = "\<lparr>pathname = ''/users/42'', js_url.searchParams = []\<rparr>"
  let ?mo = "\<lparr>method_obj.handler = Function answers_id, method_obj.before = Absent\<rparr>"
  let ?mh = "\<lparr>method_obj.handler = Function answers_id, method_obj.before = Function marks\<rparr>"
  have u: "plain_URL (url ?req) = Some ?u" by (simp add: plain_URL_def request_of_def)
  have m: "req_method ?req = Some ''GET''" by (simp add: request_of_def)
  have l: "lookup (radixRouter echo_router) (pathname ?u) = Some (0, Some [(''id'', ''42'')])"
    by (simp add: eval_defs)
  have b: "methods (objects echo_router 0) ''GET'' = Some ?mo" by (simp add: eval_defs)
  have h: "handler ?mo = Function answers_id" by simp
  have lh: "lookup (radixRouter hooked_router) (pathname ?u) = Some (0, Some [(''id'', ''42'')])"
    by (simp add: eval_defs)
  have bh: "methods (objects hooked_router 0) ''GET'' = Some ?mh" by (simp add: eval_defs)
  have hh: "handler ?mh = Function answers_id" by simp
  from handle_populates_request
         [where new_URL = plain_URL and req = ?req and res = no_response, OF u l m b h]
       handle_populates_request
         [where new_URL = plain_URL and req = ?req and res = no_response, OF u lh m bh hh] l
  show ?thesis by (simp add: request_of_def answers_id_def marks_def)
qed

subsection \<open>Failures of the handler and of the pre-hook\<close>

text \<open>
  The \<open>catch\<close> block answers 500; with \<open>debug\<close> the body is the name, the message and the
  stack of what was caught, without it the body is empty (\<open>null\<close>).
\<close>

lemma catch_block_500:
  "e \<noteq> Nullish \<or> \<not> debug this \<Longrightarrow>
     catch_block this e st =
       st\<lparr>settled := Fulfilled None,
          response_after :=
            send (response_after st) 500
              (if debug this
               then Some (name_of e @ '': '' @ message_of e @ [CHR 0x0A] @ stack_of e)
               else None)\<rparr>"
  by (cases e) (auto simp: catch_block_def)

text \<open>A handler that throws, or whose promise rejects, ends in the \<open>catch\<close> block.\<close>

lemma run_handler_failure:
  assumes "handler mo = Function h"
      and "h (request_after st) (response_after st) = ((rq, rs), c)"
      and "c = Throws e \<or> c = Returns (Rejects e)"
  shows "run_handler this mo st =
           catch_block this e
             (st\<lparr>request_after := rq, response_after := rs,
                 calls := calls st @ [(Handler, request_after st)]\<rparr>)"
  using assms by (auto simp: run_handler_def call_def Let_def)

text \<open>
  A pre-hook that throws ends in the same \<open>catch\<close> block, and the handler is not called.
\<close>

lemma run_before_throw:
  assumes "before mo = Function b"
      and "b (request_after st) (response_after st) = ((rq, rs), Throws e)"
  shows "run_before this mo st =
           catch_block this e
             (st\<lparr>request_after := rq, response_after := rs,
                 calls := calls st @ [(Before, request_after st)]\<rparr>)"
  using assms by (simp add: run_before_def call_def Let_def)

text \<open>
  A pre-hook that returns a promise is not waited for: whatever the promise does, the
  handler runs next, and a rejection is left unhandled.
\<close>

lemma run_before_promise:
  assumes "before mo = Function b"
      and "b (request_after st) (response_after st) = ((rq, rs), Returns (Rejects e))"
  shows "run_before this mo st =
           run_handler this mo
             (st\<lparr>request_after := rq, response_after := rs,
                 calls := calls st @ [(Before, request_after st)],
                 unhandled := unhandled st @ [e]\<rparr>)"
  using assms by (simp add: run_before_def call_def Let_def)

lemma handle_handler_failure:
  assumes "new_URL (url req) = Some reqURL"
      and "lookup (radixRouter this) (pathname reqURL) = Some (a, ps)"
      and "req_method req = Some m"
      and "methods (objects this a) m = Some mo"
      and "before mo = Absent" and "handler mo = Function h"
      and "h ((case ps of Some p \<Rightarrow> req\<lparr>params := Some p\<rparr> | None \<Rightarrow> req)
                \<lparr>request.searchParams := Some (js_url.searchParams reqURL)\<rparr>) res = ((rq, rs), c)"
      and "c = Throws e \<or> c = Returns (Rejects e)"
      and "e \<noteq> Nullish \<or> \<not> debug this"
  shows "handle new_URL this req res =
           \<lparr>settled = Fulfilled None, request_after = rq,
            response_after =
              send rs 500
                (if debug this
                 then Some (name_of e @ '': '' @ message_of e @ [CHR 0x0A] @ stack_of e)
                 else None),
            calls = [(Handler, (case ps of Some p \<Rightarrow> req\<lparr>params := Some p\<rparr> | None \<Rightarrow> req)
                         \<lparr>request.searchParams := Some (js_url.searchParams reqURL)\<rparr>)],
            unhandled = []\<rparr>"
proof -
  let ?st = "\<lparr>settled = Unsettled,
              request_after = (case ps of Some p \<Rightarrow> req\<lparr>params := Some p\<rparr> | None \<Rightarrow> req)
                 \<lparr>request.searchParams := Some (js_url.searchParams reqURL)\<rparr>,
              response_after = res, calls = [], unhandled = []\<rparr>"
  have "handle new_URL this req res = run_handler this mo ?st"
    using assms(1-5) by (simp add: handle_found run_before_Absent)
  also have "\<dots> = catch_block this e
                     (?st\<lparr>request_after := rq, response_after := rs,
                          calls := calls ?st @ [(Handler, request_after ?st)]\<rparr>)"
    using assms(6-8) run_handler_failure [of mo h ?st rq rs c e this] by simp
  finally show ?thesis using assms(9) by (simp add: catch_block_500)
qed

lemma handle_prehook_throw:
  assumes "new_URL (url req) = Some reqURL"
      and "lookup (radixRouter this) (pathname reqURL) = Some (a, ps)"
      and "req_method req = Some m"
      and "methods (objects this a) m = Some mo"
      and "before mo = Function b"
      and "b ((case ps of Some p \<Rightarrow> req\<lparr>params := Some p\<rparr> | None \<Rightarrow> req)
                \<lparr>request.searchParams := Some (js_url.searchParams reqURL)\<rparr>) res =
             ((rq, rs), Throws e)"
      and "e \<noteq> Nullish \<or> \<not> debug this"
  shows "handle new_URL this req res =
           \<lparr>settled = Fulfilled None, request_after = rq,
            response_after =
              send rs 500
                (if debug this
                 then Some (name_of e @ '': '' @ message_of e @ [CHR 0x0A] @ stack_of e)
                 else None),
            calls = [(Before, (case ps of Some p \<Rightarrow> req\<lparr>params := Some p\<rparr> | None \<Rightarrow> req)
                         \<lparr>request.searchParams := Some (js_url.searchParams reqURL)\<rparr>)],
            unhandled = []\<rparr>"
proof -
  let ?st = "\<lparr>settled = Unsettled,
              request_after = (case ps of Some p \<Rightarrow> req\<lparr>params := Some p\<rparr> | None \<Rightarrow> req)
                 \<lparr>request.searchParams := Some (js_url.searchParams reqURL)\<rparr>,
              response_after = res, calls = [], unhandled = []\<rparr>"
  have "handle new_URL this req res = run_before this mo ?st"
    using assms(1-4) by (simp add: handle_found)
  also have "\<dots> = catch_block this e
                     (?st\<lparr>request_after := rq, response_after := rs,
                          calls := calls ?st @ [(Before, request_after ?st)]\<rparr>)"
    using assms(5,6) run_before_throw [of mo b ?st rq rs e this] by simp
  finally show ?thesis using assms(7) by (simp add: catch_block_500)
qed

subsection \<open>A pre-hook that fails\<close>

text \<open>
  C2: the completion of a bound pre-hook, an asynchronous rejection included, is awaited
  before the handler runs, and a pre-hook that raises or rejects prevents the handler
  from running and produces a 500 response as a handler failure does. For a pre-hook
  that throws this is \<open>handle_prehook_throw\<close>. For a pre-hook whose promise rejects the
  code does otherwise: \<open>methodObj.before(req, res)\<close> is called without \<open>await\<close>, so on
  \<open>GET /users/42\<close> the handler is called after the pre-hook, \<open>handle\<close> resolves to the
  handler's value, no 500 is sent and the rejection stays unhandled.
\<close>

theorem rejected_prehook_does_not_stop_handler:
  "handle plain_URL (guarded_router False) (request_of ''GET'' ''/users/42'') no_response =
     \<lparr>settled = Fulfilled (Some ''user''),
      request_after = \<lparr>url = ''/users/42'', req_method = Some ''GET'',
                        params = Some [(''id'', ''42'')], request.searchParams = Some []\<rparr>,
      response_after = \<lparr>sent = []\<rparr>,
      calls = [(Before, \<lparr>url = ''/users/42'', req_method = Some ''GET'',
                          params = Some [(''id'', ''42'')], request.searchParams = Some []\<rparr>),
               (Handler, \<lparr>url = ''/users/42'', req_method = Some ''GET'',
                           params = Some [(''id'', ''42'')], request.searchParams = Some []\<rparr>)],
      unhandled = [Thrown ''Error'' ''denied'' ''Error: denied at before'']\<rparr>"
  by (simp add: eval_defs)

subsection \<open>Failures and the 500 response\<close>

text \<open>
  C4: any failure raised during pre-hook or handler execution is caught inside \<open>handle\<close>
  and converted into a 500 response, whose body holds the failure's name, message and
  stack with \<open>debug\<close> and is empty without. For a handler that throws or rejects and for a
  pre-hook that throws, this is \<open>handle_handler_failure\<close> and \<open>handle_prehook_throw\<close>. The
  rejection of a pre-hook's promise is not caught: with \<open>debug\<close> on or off, nothing is sent
  for it and it is left unhandled.
\<close>

theorem rejected_prehook_is_not_caught:
  "sent (response_after
          (handle plain_URL (guarded_router True) (request_of ''GET'' ''/users/42'')
             no_response)) = [] \<and>
   unhandled (handle plain_URL (guarded_router True) (request_of ''GET'' ''/users/42'')
                no_response) = [denied] \<and>
   settled (handle plain_URL (guarded_router True) (request_of ''GET'' ''/users/42'')
              no_response) = Fulfilled (Some ''user'') \<and>
   sent (response_after
          (handle plain_URL (guarded_router False) (request_of ''GET'' ''/users/42'')
             no_response)) = [] \<and>
   unhandled (handle plain_URL (guarded_router False) (request_of ''GET'' ''/users/42'')
                no_response) = [denied]"
  by (simp add: eval_defs)

text \<open>
  With \<open>debug\<close>, a thrown \<open>null\<close> makes the \<open>catch\<close> block itself raise on \<open>e.name\<close>: \<open>handle\<close>
  rejects with that TypeError and sends nothing.
\<close>

lemma thrown_null_escapes_with_debug:
  "handle plain_URL null_thrower_router (request_of ''GET'' ''/x'') no_response =
     \<lparr>settled = Rejected (TypeError ''Cannot read properties of undefined''),
      request_after = \<lparr>url = ''/x'', req_method = Some ''GET'', params = None,
                        request.searchParams = Some []\<rparr>,
      response_after = \<lparr>sent = []\<rparr>,
      calls = [(Handler, \<lparr>url = ''/x'', req_method = Some ''GET'', params = None,
                           request.searchParams = Some []\<rparr>)],
      unhandled = []\<rparr>"
  by (simp add: eval_defs)

subsection \<open>A method that is not bound\<close>

text \<open>
  C1: a request whose path matches a pattern but whose method has no binding on the
  matched route gets the outcome of a path with no match: a 404 fault, not a 500. The
  code does otherwise: \<open>route.methods.get\<close> gives \<open>undefined\<close>, the read of
  \<open>methodObj.before\<close> raises a TypeError inside the \<open>try\<close>, and the \<open>catch\<close> block answers
  500. With only \<open>GET /users/:id\<close> registered, \<open>POST /users/42\<close> resolves after a 500 was
  sent, while \<open>POST /nowhere\<close> rejects with the 404 error.
\<close>

theorem unbound_method_answers_500:
  "handle plain_URL users_router (request_of ''POST'' ''/users/42'') no_response =
     \<lparr>settled = Fulfilled None,
      request_after = \<lparr>url = ''/users/42'', req_method = Some ''POST'',
                        params = Some [(''id'', ''42'')], request.searchParams = Some []\<rparr>,
      response_after = \<lparr>sent = [(500, None)]\<rparr>,
      calls = [], unhandled = []\<rparr> \<and>
   handle plain_URL users_router (request_of ''POST'' ''/nowhere'') no_response =
     \<lparr>settled = Rejected (HttpError 404 ''Route not found''),
      request_after = \<lparr>url = ''/nowhere'', req_method = Some ''POST'',
                        params = None, request.searchParams = None\<rparr>,
      response_after = \<lparr>sent = []\<rparr>,
      calls = [], unhandled = []\<rparr>"
  by (simp add: eval_defs)

text \<open>The same for every matched route and every method it does not bind.\<close>

lemma handle_unbound_method:
  assumes "new_URL (url req) = Some reqURL"
      and "lookup (radixRouter this) (pathname reqURL) = Some (a, ps)"
      and "req_method req = Some m"
      and "methods (objects this a) m = None"
  shows "settled (handle new_URL this req res) = Fulfilled None \<and>
         sent (response_after (handle new_URL this req res)) =
           sent res @
             [(500, if debug this
                    then Some (''TypeError: Cannot read properties of undefined'' @ [CHR 0x0A] @
                               ''TypeError: Cannot read properties of undefined'')
                    else None)] \<and>
         calls (handle new_URL this req res) = []"
  using assms by (simp add: handle_found catch_block_500 send_def)

section \<open>Registration and dispatch together\<close>

subsection \<open>A static pattern registered after a parameter pattern\<close>

text \<open>
  C3: with \<open>/a/:id\<close> registered first and \<open>/a/five\<close> afterwards, each with its own
  handler, \<open>/a/five\<close> dispatches to the static route's handler while \<open>/a/5\<close> still
  dispatches to the parameter route's handler with \<open>id\<close> bound to \<open>5\<close>. The code does
  otherwise: \<open>route\<close> asks \<open>lookup('/a/five')\<close> whether the pattern exists, the parameter
  child matches \<open>five\<close>, and the binding is written into the Route of \<open>/a/:id\<close>. No
  static route is created, the \<open>GET\<close> handler of \<open>/a/:id\<close> is replaced, and \<open>/a/5\<close>
  is answered by the handler given for \<open>/a/five\<close>.
\<close>

theorem static_after_parameter_replaces_handler:
  "allocated overlap_router = 1 \<and>
   path (objects overlap_router 0) = ''/a/:id'' \<and>
   lookup (radixRouter overlap_router) ''/a/five'' = Some (0, Some [(''id'', ''five'')]) \<and>
   handle plain_URL overlap_router (request_of ''GET'' ''/a/5'') no_response =
     \<lparr>settled = Fulfilled (Some ''static''),
      request_after = \<lparr>url = ''/a/5'', req_method = Some ''GET'',
                        params = Some [(''id'', ''5'')], request.searchParams = Some []\<rparr>,
      response_after = \<lparr>sent = []\<rparr>,
      calls = [(Handler, \<lparr>url = ''/a/5'', req_method = Some ''GET'',
                           params = Some [(''id'', ''5'')], request.searchParams = Some []\<rparr>)],
      unhandled = []\<rparr> \<and>
   settled (handle plain_URL overlap_router (request_of ''GET'' ''/a/five'') no_response) =
     Fulfilled (Some ''static'') \<and>
   params (request_after
            (handle plain_URL overlap_router (request_of ''GET'' ''/a/five'') no_response)) =
     Some [(''id'', ''five'')]"
  by (simp add: eval_defs)

subsection \<open>A pre-hook that is not a function\<close>

text \<open>
  C6: a registration whose pre-hook is not callable fails with an assertion error and
  leaves the routing table unchanged, with no binding installed for the pattern and
  method. The error is raised, but after \<open>route.methods.set\<close>: on a new router the failed
  call has created the Route of \<open>/x\<close> and bound \<open>GET\<close> to the handler without a pre-hook,
  so \<open>GET /x\<close>, a 404 before the call, is answered by the handler after it.
\<close>

theorem bad_hook_registration_installs_binding:
  "fst (route (Some bad_hook_options) (Router None)) =
     Some (AssertionError ''The expression evaluated to a falsy value'') \<and>
   lookup (radixRouter (Router None)) ''/x'' = None \<and>
   lookup (radixRouter (snd (route (Some bad_hook_options) (Router None)))) ''/x'' =
     Some (0, None) \<and>
   methods (objects (snd (route (Some bad_hook_options) (Router None))) 0) ''GET'' =
     Some \<lparr>method_obj.handler = Function (replies ''x''), method_obj.before = Absent\<rparr> \<and>
   settled (handle plain_URL (Router None) (request_of ''GET'' ''/x'') no_response) =
     Rejected (HttpError 404 ''Route not found'') \<and>
   settled (handle plain_URL (snd (route (Some bad_hook_options) (Router None)))
              (request_of ''GET'' ''/x'') no_response) = Fulfilled (Some ''x'')"
  by (simp add: eval_defs)

text \<open>The error itself is raised for every registration with such a pre-hook.\<close>

lemma route_rejects_bad_hook:
  assumes "truthy (route_options.path opts)" and "truthy (opt_method opts)"
      and "route_options.handler opts \<noteq> Absent"
      and "route_options.before opts = NotFunction"
  shows "fst (route (Some opts) this) =
           Some (AssertionError ''The expression evaluated to a falsy value'')"
  using assms by (simp add: route_def Let_def split: prod.splits)

end
